theory Spec2Isabelle
  imports Main "HOL-Library.Sublist"
begin

section \<open>The Account service: the request handlers of service/routes.py\<close>

text \<open>
  The handlers of \<^verbatim>\<open>service/routes.py\<close> are embedded as functions that take the database
  and the request and return the outcome together with the database afterwards. An
  \<^verbatim>\<open>abort(code, message)\<close> of the source is the left injection of the outcome, a returned
  response the right one.
\<close>

subsection \<open>HTTP values\<close>

text \<open>\<^verbatim>\<open>abort(code, description)\<close> raises an HTTP exception with that code and description.\<close>

datatype http_error = HTTPException nat string

text \<open>
  A response body: \<^verbatim>\<open>jsonify\<close> of one serialized account, \<^verbatim>\<open>jsonify\<close> of a list of them,
  or a plain string.
\<close>

datatype 'j payload = Json 'j | JsonList "'j list" | Text string

record 'j response =
  status :: nat
  body :: "'j payload"
  headers :: "(string \<times> string) list"

type_synonym 'j outcome = "http_error + 'j response"

text \<open>The codes of \<^verbatim>\<open>service.common.status\<close> that the handlers use.\<close>

abbreviation HTTP_200_OK :: nat where "HTTP_200_OK \<equiv> 200"
abbreviation HTTP_201_CREATED :: nat where "HTTP_201_CREATED \<equiv> 201"
abbreviation HTTP_204_NO_CONTENT :: nat where "HTTP_204_NO_CONTENT \<equiv> 204"
abbreviation HTTP_400_BAD_REQUEST :: nat where "HTTP_400_BAD_REQUEST \<equiv> 400"
abbreviation HTTP_404_NOT_FOUND :: nat where "HTTP_404_NOT_FOUND \<equiv> 404"
abbreviation HTTP_415_UNSUPPORTED_MEDIA_TYPE :: nat where "HTTP_415_UNSUPPORTED_MEDIA_TYPE \<equiv> 415"
abbreviation HTTP_500_INTERNAL_SERVER_ERROR :: nat where "HTTP_500_INTERNAL_SERVER_ERROR \<equiv> 500"

text \<open>
  What a handler reads of the request: \<^verbatim>\<open>request.headers.get("Content-Type")\<close> (\<open>None\<close>
  when the header is missing), the value of \<^verbatim>\<open>request.get_json()\<close> (\<open>None\<close> when the body is
  missing or is not JSON), and the scheme and host that \<^verbatim>\<open>url_for(..., _external=True)\<close>
  puts in front of a path.
\<close>

record 'b request =
  content_type :: "string option"
  json_body :: "'b option"
  host_url :: string

subsection \<open>Decimal rendering of a path id\<close>

text \<open>
  The f-strings and \<^verbatim>\<open>url_for\<close> render the id with \<^verbatim>\<open>str\<close>. The route converter
  \<^verbatim>\<open><int:account_id>\<close> accepts unsigned decimal numbers only, so ids are naturals.
\<close>

definition digit :: "nat \<Rightarrow> char" where
  "digit d = ''0123456789'' ! (d mod 10)"

fun str_nat :: "nat \<Rightarrow> string" where
  "str_nat n = (if n < 10 then [digit n] else str_nat (n div 10) @ [digit (n mod 10)])"

declare str_nat.simps [simp del]

subsection \<open>The Account model and its collaborators\<close>

text \<open>
  Modelled from the spec: the entity of \<^verbatim>\<open>service.models.Account\<close>, whose class is not among
  the sources. An Account has its id (\<open>None\<close> before persistence assigns one) and its
  business fields, which the handlers never inspect.
\<close>

record 'f account =
  id_of :: "nat option"
  attrs :: 'f

text \<open>
  Modelled from the spec: the serialization side of \<^verbatim>\<open>service.models.Account\<close>, which is not
  among the sources. The business fields are opaque to the handlers, so the
  collaborator is a parameter: the column values of a fresh \<^verbatim>\<open>Account()\<close>, the decoding of
  a request body into business fields (\<open>None\<close> for a body that is not a valid Account), and
  \<^verbatim>\<open>serialize\<close>.
\<close>

record ('b, 'f, 'j) models =
  new_fields :: 'f
  decode :: "'b \<Rightarrow> 'f option"
  serialize :: "'f account \<Rightarrow> 'j"

text \<open>
  Modelled from the spec: the constructor \<^verbatim>\<open>Account()\<close>, which gives a new object without an
  id, not yet persisted.
\<close>

definition Account :: "('b, 'f, 'j) models \<Rightarrow> 'f account" where
  "Account M = \<lparr>id_of = None, attrs = new_fields M\<rparr>"

text \<open>
  Modelled from the spec: \<^verbatim>\<open>Account.deserialize\<close> overwrites every mutable field from the
  body and leaves the id as it is; a body that does not describe a valid Account is a
  BadRequest (400).
\<close>

definition deserialize ::
  "('b, 'f, 'j) models \<Rightarrow> 'f account \<Rightarrow> 'b \<Rightarrow> http_error + 'f account" where
  "deserialize M a data =
     (case decode M data of
        None \<Rightarrow> Inl (HTTPException HTTP_400_BAD_REQUEST ''Invalid Account'')
      | Some f \<Rightarrow> Inr (a\<lparr>attrs := f\<rparr>))"

text \<open>
  Modelled from the spec: \<^verbatim>\<open>request.get_json()\<close> of the web framework yields the parsed
  body, and a missing or malformed body is a BadRequest (400).
\<close>

definition get_json :: "'b request \<Rightarrow> http_error + 'b" where
  "get_json req =
     (case json_body req of
        None \<Rightarrow> Inl (HTTPException HTTP_400_BAD_REQUEST ''Bad Request'')
      | Some data \<Rightarrow> Inr data)"

subsection \<open>The persistence collaborator\<close>

text \<open>
  Modelled from the spec: the persistence side of \<^verbatim>\<open>service.models.Account\<close> (find by id,
  find all, insert, update, delete), which is not among the sources. The database holds
  the records in enumeration order and the next id to assign; it also records every
  persistence operation invoked on it, in order, so that a statement about which
  operations a handler invokes can be made.
\<close>

datatype db_call = FindCall nat | AllCall | CreateCall | UpdateCall | DeleteCall

record 'f database =
  rows :: "'f account list"
  next_id :: nat
  calls :: "db_call list"

text \<open>
  Modelled from the spec: find by id is the first record, in enumeration order, that carries
  the id.
\<close>

definition find_by_id :: "'f database \<Rightarrow> nat \<Rightarrow> 'f account option" where
  "find_by_id db i = List.find (\<lambda>a. id_of a = Some i) (rows db)"

text \<open>
  Modelled from the spec: \<^verbatim>\<open>Account.find(account_id)\<close> yields that record, or nothing when
  no record carries the id, and writes nothing.
\<close>

definition Account_find :: "'f database \<Rightarrow> nat \<Rightarrow> 'f account option \<times> 'f database" where
  "Account_find db i = (find_by_id db i, db\<lparr>calls := calls db @ [FindCall i]\<rparr>)"

text \<open>
  Modelled from the spec: \<^verbatim>\<open>Account.all()\<close> yields every record, in enumeration order, and
  writes nothing.
\<close>

definition Account_all :: "'f database \<Rightarrow> 'f account list \<times> 'f database" where
  "Account_all db = (rows db, db\<lparr>calls := calls db @ [AllCall]\<rparr>)"

text \<open>
  Modelled from the spec: \<^verbatim>\<open>account.create()\<close> assigns the next id to the object and inserts
  it as one new record.
\<close>

definition Account_create :: "'f database \<Rightarrow> 'f account \<Rightarrow> 'f account \<times> 'f database" where
  "Account_create db a =
     (let a' = a\<lparr>id_of := Some (next_id db)\<rparr>
      in (a', db\<lparr>rows := rows db @ [a'], next_id := Suc (next_id db),
                 calls := calls db @ [CreateCall]\<rparr>))"

text \<open>
  Modelled from the spec: \<^verbatim>\<open>account.update()\<close> writes the object over the record that carries
  its id.
\<close>

definition Account_update :: "'f database \<Rightarrow> 'f account \<Rightarrow> 'f database" where
  "Account_update db a =
     db\<lparr>rows := map (\<lambda>r. if id_of r = id_of a then a else r) (rows db),
        calls := calls db @ [UpdateCall]\<rparr>"

text \<open>
  Modelled from the spec: \<^verbatim>\<open>account.delete()\<close> removes the record that carries the id of
  the object.
\<close>

definition Account_delete :: "'f database \<Rightarrow> 'f account \<Rightarrow> 'f database" where
  "Account_delete db a =
     db\<lparr>rows := filter (\<lambda>r. id_of r \<noteq> id_of a) (rows db),
        calls := calls db @ [DeleteCall]\<rparr>"

text \<open>The persisted state proper: the records and the id counter, without the call record.\<close>

definition persisted :: "'f database \<Rightarrow> 'f account list \<times> nat" where
  "persisted db = (rows db, next_id db)"

text \<open>
  Modelled from the spec: ids are unique and assigned by persistence, so in a database as
  persistence keeps it every record has an id below the counter and no two records share
  an id.
\<close>

definition has_id_below :: "nat \<Rightarrow> 'f account \<Rightarrow> bool" where
  "has_id_below n a = (case id_of a of None \<Rightarrow> False | Some i \<Rightarrow> i < n)"

definition wf_db :: "'f database \<Rightarrow> bool" where
  "wf_db db \<longleftrightarrow>
     distinct (map id_of (rows db)) \<and> list_all (has_id_below (next_id db)) (rows db)"

subsection \<open>The handlers\<close>

text \<open>
  \<^verbatim>\<open>check_content_type(media_type)\<close>: returns when the header is truthy (present and not
  empty) and equal to \<open>media_type\<close>, aborts with 415 otherwise.
\<close>

definition check_content_type :: "string \<Rightarrow> 'b request \<Rightarrow> http_error + unit" where
  "check_content_type media_type req =
     (let ct = content_type req in
      if (ct \<noteq> None \<and> ct \<noteq> Some []) \<and> ct = Some media_type then Inr ()
      else Inl (HTTPException HTTP_415_UNSUPPORTED_MEDIA_TYPE
                  (''Content-Type must be '' @ media_type)))"

text \<open>\<^verbatim>\<open>url_for("get_account", account_id=i, _external=True)\<close>.\<close>

definition url_for_get_account :: "'b request \<Rightarrow> nat \<Rightarrow> string" where
  "url_for_get_account req i = host_url req @ ''/accounts/'' @ str_nat i"

text \<open>The description of the 404 that Read and Update abort with.\<close>

definition not_found_message :: "nat \<Rightarrow> string" where
  "not_found_message account_id =
     ''Account with id ['' @ str_nat account_id @ ''] could not be found.''"

text \<open>
  \<^verbatim>\<open>create_accounts\<close> (POST /accounts). \<^verbatim>\<open>url_for\<close> cannot build the URL of an account
  without an id; that branch is the 500 below.
\<close>

definition create_accounts ::
  "('b, 'f, 'j) models \<Rightarrow> 'f database \<Rightarrow> 'b request \<Rightarrow> 'j outcome \<times> 'f database" where
  "create_accounts M db req =
     (case check_content_type ''application/json'' req of
        Inl e \<Rightarrow> (Inl e, db)
      | Inr _ \<Rightarrow>
          (case get_json req of
             Inl e \<Rightarrow> (Inl e, db)
           | Inr data \<Rightarrow>
               (case deserialize M (Account M) data of
                  Inl e \<Rightarrow> (Inl e, db)
                | Inr account0 \<Rightarrow>
                    (let (account, db1) = Account_create db account0;
                         message = serialize M account
                     in case id_of account of
                          None \<Rightarrow>
                            (Inl (HTTPException HTTP_500_INTERNAL_SERVER_ERROR ''BuildError''), db1)
                        | Some i \<Rightarrow>
                            (Inr \<lparr>status = HTTP_201_CREATED, body = Json message,
                                  headers = [(''Location'', url_for_get_account req i)]\<rparr>,
                             db1)))))"

text \<open>\<^verbatim>\<open>list_accounts\<close> (GET /accounts).\<close>

definition list_accounts ::
  "('b, 'f, 'j) models \<Rightarrow> 'f database \<Rightarrow> 'j outcome \<times> 'f database" where
  "list_accounts M db =
     (let (accounts, db1) = Account_all db;
          account_list = map (serialize M) accounts
      in (Inr \<lparr>status = HTTP_200_OK, body = JsonList account_list, headers = []\<rparr>, db1))"

text \<open>\<^verbatim>\<open>get_account\<close> (GET /accounts/<int:account_id>).\<close>

definition get_account ::
  "('b, 'f, 'j) models \<Rightarrow> 'f database \<Rightarrow> nat \<Rightarrow> 'j outcome \<times> 'f database" where
  "get_account M db account_id =
     (let (found, db1) = Account_find db account_id
      in case found of
           None \<Rightarrow>
             (Inl (HTTPException HTTP_404_NOT_FOUND (not_found_message account_id)), db1)
         | Some account \<Rightarrow>
             (Inr \<lparr>status = HTTP_200_OK, body = Json (serialize M account), headers = []\<rparr>,
              db1))"

text \<open>\<^verbatim>\<open>update_account\<close> (PUT /accounts/<int:account_id>).\<close>

definition update_account ::
  "('b, 'f, 'j) models \<Rightarrow> 'f database \<Rightarrow> nat \<Rightarrow> 'b request \<Rightarrow> 'j outcome \<times> 'f database"
  where
  "update_account M db account_id req =
     (let (found, db1) = Account_find db account_id
      in case found of
           None \<Rightarrow>
             (Inl (HTTPException HTTP_404_NOT_FOUND (not_found_message account_id)), db1)
         | Some account0 \<Rightarrow>
             (case check_content_type ''application/json'' req of
                Inl e \<Rightarrow> (Inl e, db1)
              | Inr _ \<Rightarrow>
                  (case get_json req of
                     Inl e \<Rightarrow> (Inl e, db1)
                   | Inr data \<Rightarrow>
                       (case deserialize M account0 data of
                          Inl e \<Rightarrow> (Inl e, db1)
                        | Inr account \<Rightarrow>
                            (let db2 = Account_update db1 account
                             in (Inr \<lparr>status = HTTP_200_OK,
                                      body = Json (serialize M account), headers = []\<rparr>,
                                 db2))))))"

text \<open>
  \<^verbatim>\<open>delete_account\<close> (DELETE /accounts/<int:account_id>). Its body is the empty string, never
  a serialized account, so the payload carries none.
\<close>

definition delete_account ::
  "'f database \<Rightarrow> nat \<Rightarrow> unit outcome \<times> 'f database" where
  "delete_account db account_id =
     (let (found, db1) = Account_find db account_id;
          db2 = (case found of None \<Rightarrow> db1 | Some account \<Rightarrow> Account_delete db1 account)
      in (Inr \<lparr>status = HTTP_204_NO_CONTENT, body = Text [], headers = []\<rparr>, db2))"

subsection \<open>A concrete instance\<close>

text \<open>
  An instance to run the handlers on: bodies and business fields are strings, the empty body
  is the one that is not a valid Account, and an account serializes to its id and fields.
\<close>

definition example_models :: "(string, string, nat option \<times> string) models" where
  "example_models =
     \<lparr>new_fields = [], decode = (\<lambda>b. if b = [] then None else Some b),
      serialize = (\<lambda>a. (id_of a, attrs a))\<rparr>"

definition example_db :: "string database" where
  "example_db =
     \<lparr>rows = [\<lparr>id_of = Some 1, attrs = ''Alice''\<rparr>, \<lparr>id_of = Some 2, attrs = ''Bob''\<rparr>],
      next_id = 3, calls = []\<rparr>"

definition empty_db :: "string database" where
  "empty_db = \<lparr>rows = [], next_id = 1, calls = []\<rparr>"

definition json_request :: "string \<Rightarrow> string request" where
  "json_request b =
     \<lparr>content_type = Some ''application/json'', json_body = Some b,
      host_url = ''http://localhost''\<rparr>"

definition text_request :: "string \<Rightarrow> string request" where
  "text_request b =
     \<lparr>content_type = Some ''text/plain'', json_body = Some b, host_url = ''http://localhost''\<rparr>"

section \<open>Auxiliary facts\<close>

subsection \<open>Rendering and lookup\<close>

lemma str_nat_small: "n < 10 \<Longrightarrow> str_nat n = [digit n]"
  by (simp add: str_nat.simps)

lemma str_nat_large: "10 \<le> n \<Longrightarrow> str_nat n = str_nat (n div 10) @ [digit (n mod 10)]"
  by (subst str_nat.simps) simp

lemma check_content_type_iff:
  "check_content_type ''application/json'' req =
     (if content_type req = Some ''application/json'' then Inr ()
      else Inl (HTTPException HTTP_415_UNSUPPORTED_MEDIA_TYPE
                  ''Content-Type must be application/json''))"
  by (auto simp: check_content_type_def Let_def)

lemma find_by_id_id: "find_by_id db i = Some a \<Longrightarrow> id_of a = Some i"
  by (auto simp: find_by_id_def find_Some_iff)

lemma find_by_id_calls [simp]: "find_by_id (db\<lparr>calls := c\<rparr>) i = find_by_id db i"
  by (simp add: find_by_id_def)

lemma find_map_replace:
  "id_of b = Some i \<Longrightarrow> List.find (\<lambda>a. id_of a = Some i) xs = Some a0 \<Longrightarrow>
   List.find (\<lambda>a. id_of a = Some i) (map (\<lambda>r. if id_of r = Some i then b else r) xs) = Some b"
  by (induction xs) (auto split: if_splits)

lemma find_filter_removed:
  "List.find (\<lambda>a. id_of a = Some i) (filter (\<lambda>r. id_of r \<noteq> Some i) xs) = None"
  by (induction xs) auto

lemma find_fresh_none:
  "list_all (has_id_below n) xs \<Longrightarrow> List.find (\<lambda>a. id_of a = Some n) xs = None"
  by (induction xs) (auto simp: has_id_below_def)

lemma find_append_new:
  "List.find P xs = None \<Longrightarrow> P b \<Longrightarrow> List.find P (xs @ [b]) = Some b"
  by (induction xs) (auto split: if_splits)

subsection \<open>What each handler computes, branch by branch\<close>

lemma create_accounts_bad_content_type:
  "content_type req \<noteq> Some ''application/json'' \<Longrightarrow>
   create_accounts M db req =
     (Inl (HTTPException 415 ''Content-Type must be application/json''), db)"
  by (simp add: create_accounts_def check_content_type_iff)

lemma create_accounts_no_json:
  "content_type req = Some ''application/json'' \<Longrightarrow> json_body req = None \<Longrightarrow>
   create_accounts M db req = (Inl (HTTPException 400 ''Bad Request''), db)"
  by (simp add: create_accounts_def check_content_type_iff get_json_def)

lemma create_accounts_invalid:
  "content_type req = Some ''application/json'' \<Longrightarrow> json_body req = Some d \<Longrightarrow>
   decode M d = None \<Longrightarrow>
   create_accounts M db req = (Inl (HTTPException 400 ''Invalid Account''), db)"
  by (simp add: create_accounts_def check_content_type_iff get_json_def deserialize_def)

lemma create_accounts_created:
  "content_type req = Some ''application/json'' \<Longrightarrow> json_body req = Some d \<Longrightarrow>
   decode M d = Some f \<Longrightarrow>
   create_accounts M db req =
     (Inr \<lparr>status = 201,
           body = Json (serialize M \<lparr>id_of = Some (next_id db), attrs = f\<rparr>),
           headers = [(''Location'', host_url req @ ''/accounts/'' @ str_nat (next_id db))]\<rparr>,
      db\<lparr>rows := rows db @ [\<lparr>id_of = Some (next_id db), attrs = f\<rparr>],
         next_id := Suc (next_id db), calls := calls db @ [CreateCall]\<rparr>)"
  by (simp add: create_accounts_def check_content_type_iff get_json_def deserialize_def
      Account_def Account_create_def url_for_get_account_def Let_def)

lemma update_account_missing:
  "find_by_id db i = None \<Longrightarrow>
   update_account M db i req =
     (Inl (HTTPException 404 (not_found_message i)), db\<lparr>calls := calls db @ [FindCall i]\<rparr>)"
  by (simp add: update_account_def Account_find_def)

lemma update_account_bad_content_type:
  "find_by_id db i = Some a \<Longrightarrow> content_type req \<noteq> Some ''application/json'' \<Longrightarrow>
   update_account M db i req =
     (Inl (HTTPException 415 ''Content-Type must be application/json''),
      db\<lparr>calls := calls db @ [FindCall i]\<rparr>)"
  by (simp add: update_account_def Account_find_def check_content_type_iff)

lemma update_account_no_json:
  "find_by_id db i = Some a \<Longrightarrow> content_type req = Some ''application/json'' \<Longrightarrow>
   json_body req = None \<Longrightarrow>
   update_account M db i req =
     (Inl (HTTPException 400 ''Bad Request''), db\<lparr>calls := calls db @ [FindCall i]\<rparr>)"
  by (simp add: update_account_def Account_find_def check_content_type_iff get_json_def)

lemma update_account_invalid:
  "find_by_id db i = Some a \<Longrightarrow> content_type req = Some ''application/json'' \<Longrightarrow>
   json_body req = Some d \<Longrightarrow> decode M d = None \<Longrightarrow>
   update_account M db i req =
     (Inl (HTTPException 400 ''Invalid Account''), db\<lparr>calls := calls db @ [FindCall i]\<rparr>)"
  by (simp add: update_account_def Account_find_def check_content_type_iff get_json_def
      deserialize_def)

lemma update_account_updated:
  assumes "find_by_id db i = Some a" and "content_type req = Some ''application/json''"
    and "json_body req = Some d" and "decode M d = Some f"
  shows "update_account M db i req =
     (Inr \<lparr>status = 200, body = Json (serialize M \<lparr>id_of = Some i, attrs = f\<rparr>),
           headers = []\<rparr>,
      db\<lparr>rows := map (\<lambda>r. if id_of r = Some i then \<lparr>id_of = Some i, attrs = f\<rparr> else r)
                    (rows db),
         calls := calls db @ [FindCall i, UpdateCall]\<rparr>)"
proof -
  have "id_of a = Some i"
    using assms(1) by (rule find_by_id_id)
  then have "a\<lparr>attrs := f\<rparr> = \<lparr>id_of = Some i, attrs = f\<rparr>"
    by (cases a) simp
  with assms show ?thesis
    by (simp add: update_account_def Account_find_def check_content_type_iff get_json_def
        deserialize_def Account_update_def)
qed

lemma get_account_missing:
  "find_by_id db i = None \<Longrightarrow>
   get_account M db i =
     (Inl (HTTPException 404 (not_found_message i)), db\<lparr>calls := calls db @ [FindCall i]\<rparr>)"
  by (simp add: get_account_def Account_find_def)

lemma get_account_found:
  "find_by_id db i = Some a \<Longrightarrow>
   get_account M db i =
     (Inr \<lparr>status = 200, body = Json (serialize M a), headers = []\<rparr>,
      db\<lparr>calls := calls db @ [FindCall i]\<rparr>)"
  by (simp add: get_account_def Account_find_def)

lemma list_accounts_eq:
  "list_accounts M db =
     (Inr \<lparr>status = 200, body = JsonList (map (serialize M) (rows db)), headers = []\<rparr>,
      db\<lparr>calls := calls db @ [AllCall]\<rparr>)"
  by (simp add: list_accounts_def Account_all_def)

lemma delete_account_missing:
  "find_by_id db i = None \<Longrightarrow>
   delete_account db i =
     (Inr \<lparr>status = 204, body = Text [], headers = []\<rparr>,
      db\<lparr>calls := calls db @ [FindCall i]\<rparr>)"
  by (simp add: delete_account_def Account_find_def)

lemma delete_account_found:
  "find_by_id db i = Some a \<Longrightarrow>
   delete_account db i =
     (Inr \<lparr>status = 204, body = Text [], headers = []\<rparr>,
      db\<lparr>rows := filter (\<lambda>r. id_of r \<noteq> Some i) (rows db),
         calls := calls db @ [FindCall i, DeleteCall]\<rparr>)"
  by (simp add: delete_account_def Account_find_def Account_delete_def find_by_id_id)

lemma delete_account_rows:
  "rows (snd (delete_account db i)) = filter (\<lambda>r. id_of r \<noteq> Some i) (rows db)"
proof (cases "find_by_id db i")
  case None
  then have "\<forall>r \<in> set (rows db). id_of r \<noteq> Some i"
    by (simp add: find_by_id_def find_None_iff)
  then have "filter (\<lambda>r. id_of r \<noteq> Some i) (rows db) = rows db"
    by (simp add: filter_id_conv)
  with None show ?thesis
    by (simp add: delete_account_missing)
next
  case (Some a)
  then show ?thesis
    by (simp add: delete_account_found)
qed

lemma create_accounts_cases:
  "(content_type req \<noteq> Some ''application/json'' \<and>
      create_accounts M db req =
        (Inl (HTTPException 415 ''Content-Type must be application/json''), db)) \<or>
   (content_type req = Some ''application/json'' \<and> json_body req = None \<and>
      create_accounts M db req = (Inl (HTTPException 400 ''Bad Request''), db)) \<or>
   (\<exists>d. content_type req = Some ''application/json'' \<and> json_body req = Some d \<and>
      decode M d = None \<and>
      create_accounts M db req = (Inl (HTTPException 400 ''Invalid Account''), db)) \<or>
   (\<exists>d f. content_type req = Some ''application/json'' \<and> json_body req = Some d \<and>
      decode M d = Some f \<and>
      create_accounts M db req =
        (Inr \<lparr>status = 201,
              body = Json (serialize M \<lparr>id_of = Some (next_id db), attrs = f\<rparr>),
              headers = [(''Location'', host_url req @ ''/accounts/'' @ str_nat (next_id db))]\<rparr>,
         db\<lparr>rows := rows db @ [\<lparr>id_of = Some (next_id db), attrs = f\<rparr>],
            next_id := Suc (next_id db), calls := calls db @ [CreateCall]\<rparr>))"
proof (cases "content_type req = Some ''application/json''")
  case False
  then show ?thesis
    by (simp add: create_accounts_bad_content_type)
next
  case True
  note ct = this
  show ?thesis
  proof (cases "json_body req")
    case None
    with ct show ?thesis
      by (simp add: create_accounts_no_json)
  next
    case (Some d)
    note js = this
    show ?thesis
    proof (cases "decode M d")
      case None
      with ct js show ?thesis
        by (simp add: create_accounts_invalid)
    next
      case (Some f)
      with ct js show ?thesis
        by (simp add: create_accounts_created)
    qed
  qed
qed

lemma update_account_cases:
  "(find_by_id db i = None \<and>
      update_account M db i req =
        (Inl (HTTPException 404 (not_found_message i)),
         db\<lparr>calls := calls db @ [FindCall i]\<rparr>)) \<or>
   (find_by_id db i \<noteq> None \<and> content_type req \<noteq> Some ''application/json'' \<and>
      update_account M db i req =
        (Inl (HTTPException 415 ''Content-Type must be application/json''),
         db\<lparr>calls := calls db @ [FindCall i]\<rparr>)) \<or>
   (find_by_id db i \<noteq> None \<and> content_type req = Some ''application/json'' \<and>
      json_body req = None \<and>
      update_account M db i req =
        (Inl (HTTPException 400 ''Bad Request''), db\<lparr>calls := calls db @ [FindCall i]\<rparr>)) \<or>
   (\<exists>d. find_by_id db i \<noteq> None \<and> content_type req = Some ''application/json'' \<and>
      json_body req = Some d \<and> decode M d = None \<and>
      update_account M db i req =
        (Inl (HTTPException 400 ''Invalid Account''),
         db\<lparr>calls := calls db @ [FindCall i]\<rparr>)) \<or>
   (\<exists>d f. find_by_id db i \<noteq> None \<and> content_type req = Some ''application/json'' \<and>
      json_body req = Some d \<and> decode M d = Some f \<and>
      update_account M db i req =
        (Inr \<lparr>status = 200, body = Json (serialize M \<lparr>id_of = Some i, attrs = f\<rparr>),
              headers = []\<rparr>,
         db\<lparr>rows := map (\<lambda>r. if id_of r = Some i then \<lparr>id_of = Some i, attrs = f\<rparr> else r)
                       (rows db),
            calls := calls db @ [FindCall i, UpdateCall]\<rparr>))"
proof (cases "find_by_id db i")
  case None
  then show ?thesis
    by (simp add: update_account_missing)
next
  case (Some a)
  note found = this
  show ?thesis
  proof (cases "content_type req = Some ''application/json''")
    case False
    with found show ?thesis
      by (simp add: update_account_bad_content_type)
  next
    case True
    note ct = this
    show ?thesis
    proof (cases "json_body req")
      case None
      with found ct show ?thesis
        by (simp add: update_account_no_json)
    next
      case (Some d)
      note js = this
      show ?thesis
      proof (cases "decode M d")
        case None
        with found ct js show ?thesis
          by (simp add: update_account_invalid)
      next
        case (Some f)
        with found ct js show ?thesis
          by (simp add: update_account_updated)
      qed
    qed
  qed
qed

subsection \<open>The invariant of the database\<close>

text \<open>
  The database without records is well formed, and every handler keeps a well-formed database
  well formed (Read and List change only the call record).
\<close>

lemma wf_db_calls [simp]: "wf_db (db\<lparr>calls := c\<rparr>) = wf_db db"
  by (simp add: wf_db_def)

lemma wf_db_empty: "wf_db empty_db"
  by (simp add: wf_db_def empty_db_def)

lemma has_id_below_Suc: "has_id_below n a \<Longrightarrow> has_id_below (Suc n) a"
  by (auto simp: has_id_below_def split: option.splits)

lemma fresh_id_not_in: "list_all (has_id_below n) xs \<Longrightarrow> Some n \<notin> id_of ` set xs"
  by (induction xs) (auto simp: has_id_below_def split: option.splits)

lemma wf_db_created:
  assumes "wf_db db"
  shows "wf_db (db\<lparr>rows := rows db @ [\<lparr>id_of = Some (next_id db), attrs = f\<rparr>],
            next_id := Suc (next_id db)\<rparr>)"
proof -
  have "Some (next_id db) \<notin> id_of ` set (rows db)"
    using assms by (intro fresh_id_not_in) (simp add: wf_db_def)
  moreover have "list_all (has_id_below (Suc (next_id db))) (rows db)"
    using assms by (auto simp: wf_db_def list_all_iff has_id_below_Suc)
  ultimately show ?thesis
    using assms by (simp add: wf_db_def has_id_below_def)
qed

lemma wf_db_create_accounts: "wf_db db \<Longrightarrow> wf_db (snd (create_accounts M db req))"
  using create_accounts_cases [of req M db]
  by (auto simp: wf_db_created)

lemma map_id_of_replace:
  "id_of b = Some i \<Longrightarrow>
   map id_of (map (\<lambda>r. if id_of r = Some i then b else r) xs) = map id_of xs"
  by (induction xs) auto

lemma list_all_replace:
  "list_all (has_id_below n) xs \<Longrightarrow>
   list_all (has_id_below n)
     (map (\<lambda>r. if id_of r = Some i then \<lparr>id_of = Some i, attrs = f\<rparr> else r) xs)"
  by (induction xs) (auto simp: has_id_below_def)

lemma wf_db_updated:
  "wf_db db \<Longrightarrow>
   wf_db (db\<lparr>rows := map (\<lambda>r. if id_of r = Some i then \<lparr>id_of = Some i, attrs = f\<rparr> else r)
                        (rows db)\<rparr>)"
  by (simp add: wf_db_def map_id_of_replace list_all_replace del: map_map)

lemma wf_db_update_account:
  assumes "wf_db db"
  shows "wf_db (snd (update_account M db i req))"
proof -
  from update_account_cases [of db i M req] show ?thesis
    using assms by (auto simp: wf_db_updated)
qed

lemma wf_db_delete_account: "wf_db db \<Longrightarrow> wf_db (snd (delete_account db i))"
  by (cases "find_by_id db i")
     (auto simp: wf_db_def delete_account_missing delete_account_found distinct_map_filter
        list_all_iff)

lemma wf_db_get_account: "wf_db db \<Longrightarrow> wf_db (snd (get_account M db i))"
  by (cases "find_by_id db i") (simp_all add: get_account_missing get_account_found)

lemma wf_db_list_accounts: "wf_db db \<Longrightarrow> wf_db (snd (list_accounts M db))"
  by (simp add: list_accounts_eq)

lemma find_by_id_created:
  assumes "wf_db db"
  shows "find_by_id (db\<lparr>rows := rows db @ [\<lparr>id_of = Some (next_id db), attrs = f\<rparr>],
            next_id := Suc (next_id db), calls := c\<rparr>) (next_id db) =
         Some \<lparr>id_of = Some (next_id db), attrs = f\<rparr>"
proof -
  have "List.find (\<lambda>a. id_of a = Some (next_id db)) (rows db) = None"
    using assms by (intro find_fresh_none) (simp add: wf_db_def)
  then show ?thesis
    by (simp add: find_by_id_def find_append_new)
qed

section \<open>The claims\<close>

subsection \<open>Content-Type enforcement\<close>

text \<open>
  Claim C1, as amended. A Create request whose Content-Type is anything other than exactly
  \<^verbatim>\<open>application/json\<close> (a missing header included) fails with 415 and the message
  \<^verbatim>\<open>Content-Type must be application/json\<close>, whatever its body, and leaves the database as
  it was. An Update request with such a Content-Type fails in the same way when its path id
  matches a persisted Account, and fails with 404 when it matches none: the handler looks
  the id up before it checks the header.
\<close>

theorem content_type_enforced:
  "content_type req \<noteq> Some ''application/json'' \<Longrightarrow>
   fst (create_accounts M db req) =
     Inl (HTTPException 415 ''Content-Type must be application/json'') \<and>
   snd (create_accounts M db req) = db \<and>
   (find_by_id db i \<noteq> None \<longrightarrow>
      fst (update_account M db i req) =
        Inl (HTTPException 415 ''Content-Type must be application/json'') \<and>
      persisted (snd (update_account M db i req)) = persisted db) \<and>
   (find_by_id db i = None \<longrightarrow>
      fst (update_account M db i req) = Inl (HTTPException 404 (not_found_message i)))"
  by (auto simp: create_accounts_bad_content_type update_account_bad_content_type
      update_account_missing persisted_def)

theorem content_type_enforced_witness:
  "content_type (text_request ''Carol'') \<noteq> Some ''application/json'' \<and>
   content_type (\<lparr>content_type = None, json_body = Some ''Carol'', host_url = []\<rparr>)
     \<noteq> Some ''application/json'' \<and>
   find_by_id example_db 2 \<noteq> None \<and>
   fst (create_accounts example_models example_db (text_request ''Carol'')) =
     Inl (HTTPException 415 ''Content-Type must be application/json'') \<and>
   fst (update_account example_models example_db 2 (text_request ''Carol'')) =
     Inl (HTTPException 415 ''Content-Type must be application/json'') \<and>
   fst (update_account example_models example_db 2
          \<lparr>content_type = None, json_body = Some ''Carol'', host_url = []\<rparr>) =
     Inl (HTTPException 415 ''Content-Type must be application/json'')"
proof -
  have h1: "content_type (text_request ''Carol'') \<noteq> Some ''application/json''"
    by (simp add: text_request_def)
  have h2: "content_type (\<lparr>content_type = None, json_body = Some ''Carol'', host_url = []\<rparr>)
     \<noteq> Some ''application/json''"
    by simp
  have h3: "find_by_id example_db 2 \<noteq> None"
    by (simp add: find_by_id_def example_db_def)
  show ?thesis
    using h1 h2 h3
      content_type_enforced [OF h1, of example_models example_db 2]
      content_type_enforced [OF h2, of example_models example_db 2]
    by simp
qed

text \<open>
  The claim as first stated promises 415 for an Update whether or not the path id exists.
  An Update of id 7, which the example database does not hold, with Content-Type
  \<^verbatim>\<open>text/plain\<close> is answered 404.
\<close>

theorem update_unknown_id_media_type_counterexample:
  "content_type (text_request ''Carol'') \<noteq> Some ''application/json'' \<and>
   fst (update_account example_models example_db 7 (text_request ''Carol'')) =
     Inl (HTTPException 404 ''Account with id [7] could not be found.'') \<and>
   fst (update_account example_models example_db 7 (text_request ''Carol'')) \<noteq>
     Inl (HTTPException 415 ''Content-Type must be application/json'')"
  by (simp add: update_account_def Account_find_def find_by_id_def example_db_def
      text_request_def not_found_message_def str_nat_small digit_def)

subsection \<open>Update of an unknown id\<close>

text \<open>
  Claim C2. An Update whose path id matches no persisted Account fails with 404, whatever
  the Content-Type and the body of the request are; the records and the id counter are as
  before, and the lookup is the only persistence operation invoked.
\<close>

theorem update_unknown_id:
  "find_by_id db i = None \<Longrightarrow>
   fst (update_account M db i req) = Inl (HTTPException 404 (not_found_message i)) \<and>
   persisted (snd (update_account M db i req)) = persisted db \<and>
   calls (snd (update_account M db i req)) = calls db @ [FindCall i]"
  by (simp add: update_account_missing persisted_def)

theorem update_unknown_id_witness:
  "find_by_id example_db 7 = None \<and>
   fst (update_account example_models example_db 7 (json_request ''Carol'')) =
     Inl (HTTPException 404 ''Account with id [7] could not be found.'') \<and>
   rows (snd (update_account example_models example_db 7 (json_request ''Carol''))) =
     rows example_db"
proof -
  have h: "find_by_id example_db 7 = None"
    by (simp add: find_by_id_def example_db_def)
  have m: "not_found_message 7 = ''Account with id [7] could not be found.''"
    by (simp add: not_found_message_def str_nat_small digit_def)
  show ?thesis
    using h m update_unknown_id [OF h, of example_models "json_request ''Carol''"]
    by (simp add: persisted_def)
qed

subsection \<open>List and Read\<close>

text \<open>
  Claim C8. List answers 200 with the serialization of every persisted Account, one
  element per record in enumeration order; with no records the sequence is empty. The
  handler has no failing branch.
\<close>

theorem list_accounts_all:
  "fst (list_accounts M db) =
     Inr \<lparr>status = 200, body = JsonList (map (serialize M) (rows db)), headers = []\<rparr> \<and>
   length (map (serialize M) (rows db)) = length (rows db) \<and>
   fst (list_accounts M (db\<lparr>rows := []\<rparr>)) =
     Inr \<lparr>status = 200, body = JsonList [], headers = []\<rparr>"
  by (simp add: list_accounts_eq)

text \<open>
  Claim C10. Read invokes the lookup by id and nothing else, List the enumeration and
  nothing else; after either the records and the id counter are what they were.
\<close>

theorem read_and_list_pure:
  "persisted (snd (get_account M db i)) = persisted db \<and>
   calls (snd (get_account M db i)) = calls db @ [FindCall i] \<and>
   persisted (snd (list_accounts M db)) = persisted db \<and>
   calls (snd (list_accounts M db)) = calls db @ [AllCall]"
  by (cases "find_by_id db i")
     (simp_all add: get_account_missing get_account_found list_accounts_eq persisted_def)

subsection \<open>Read\<close>

text \<open>
  Claim C6. A Read of an id that no Account carries fails with 404, and the message of the
  404 contains the decimal rendering of that id; a Read of an id that an Account carries
  answers 200 with the serialized Account.
\<close>

theorem read_outcome:
  "(find_by_id db i = None \<longrightarrow>
      fst (get_account M db i) = Inl (HTTPException 404 (not_found_message i)) \<and>
      sublist (str_nat i) (not_found_message i)) \<and>
   (\<forall>a. find_by_id db i = Some a \<longrightarrow>
      fst (get_account M db i) =
        Inr \<lparr>status = 200, body = Json (serialize M a), headers = []\<rparr>)"
proof -
  have "sublist (str_nat i) (''Account with id ['' @ str_nat i @ ''] could not be found.'')"
    by (rule sublist_appendI)
  then show ?thesis
    by (simp add: get_account_missing get_account_found not_found_message_def)
qed

theorem read_outcome_witness:
  "find_by_id example_db 999999 = None \<and>
   fst (get_account example_models example_db 999999) =
     Inl (HTTPException 404 ''Account with id [999999] could not be found.'') \<and>
   sublist ''999999'' ''Account with id [999999] could not be found.'' \<and>
   find_by_id example_db 2 = Some \<lparr>id_of = Some 2, attrs = ''Bob''\<rparr> \<and>
   fst (get_account example_models example_db 2) =
     Inr \<lparr>status = 200, body = Json (Some 2, ''Bob''), headers = []\<rparr>"
proof -
  have h1: "find_by_id example_db 999999 = None"
    by (simp add: find_by_id_def example_db_def)
  have h2: "find_by_id example_db 2 = Some \<lparr>id_of = Some 2, attrs = ''Bob''\<rparr>"
    by (simp add: find_by_id_def example_db_def)
  have s: "str_nat 999999 = ''999999''"
    by (simp add: str_nat_small str_nat_large digit_def)
  have m: "not_found_message 999999 = ''Account with id [999999] could not be found.''"
    by (simp add: not_found_message_def s)
  show ?thesis
    using h1 h2 read_outcome [of example_db 999999 example_models]
      read_outcome [of example_db 2 example_models]
    by (simp add: s m example_models_def)
qed

subsection \<open>Create\<close>

text \<open>
  Claim C5. A Create request with Content-Type exactly \<^verbatim>\<open>application/json\<close> and a body that
  decodes into a valid Account persists exactly one new record, whose id is the one
  persistence assigns; the answer is 201, its body the serialized new Account and its
  Location header the URL of the Read endpoint for the new id.
\<close>

theorem create_success:
  "content_type req = Some ''application/json'' \<Longrightarrow> json_body req = Some d \<Longrightarrow>
   decode M d = Some f \<Longrightarrow>
   fst (create_accounts M db req) =
     Inr \<lparr>status = 201,
          body = Json (serialize M \<lparr>id_of = Some (next_id db), attrs = f\<rparr>),
          headers = [(''Location'', host_url req @ ''/accounts/'' @ str_nat (next_id db))]\<rparr> \<and>
   rows (snd (create_accounts M db req)) =
     rows db @ [\<lparr>id_of = Some (next_id db), attrs = f\<rparr>] \<and>
   length (rows (snd (create_accounts M db req))) = Suc (length (rows db)) \<and>
   calls (snd (create_accounts M db req)) = calls db @ [CreateCall]"
  by (simp add: create_accounts_created)

theorem create_success_witness:
  "content_type (json_request ''Carol'') = Some ''application/json'' \<and>
   json_body (json_request ''Carol'') = Some ''Carol'' \<and>
   decode example_models ''Carol'' = Some ''Carol'' \<and>
   fst (create_accounts example_models example_db (json_request ''Carol'')) =
     Inr \<lparr>status = 201, body = Json (Some 3, ''Carol''),
          headers = [(''Location'', ''http://localhost/accounts/3'')]\<rparr> \<and>
   rows (snd (create_accounts example_models example_db (json_request ''Carol''))) =
     [\<lparr>id_of = Some 1, attrs = ''Alice''\<rparr>, \<lparr>id_of = Some 2, attrs = ''Bob''\<rparr>,
      \<lparr>id_of = Some 3, attrs = ''Carol''\<rparr>]"
proof -
  have h1: "content_type (json_request ''Carol'') = Some ''application/json''"
    by (simp add: json_request_def)
  have h2: "json_body (json_request ''Carol'') = Some ''Carol''"
    by (simp add: json_request_def)
  have h3: "decode example_models ''Carol'' = Some ''Carol''"
    by (simp add: example_models_def)
  have s: "str_nat 3 = ''3''"
    by (simp add: str_nat_small digit_def)
  show ?thesis
    using h1 h2 h3 create_success [OF h1 h2 h3, of example_db]
    by (simp add: example_db_def example_models_def json_request_def s)
qed

text \<open>
  Claim C7. After a successful Create on a well-formed database, a Read of the id that
  Create returned, in its Location header and in its body, answers 200 with the body
  of the Create response.
\<close>

theorem create_then_read:
  assumes "wf_db db" and "create_accounts M db req = (Inr r, db')"
  shows "\<exists>n f. headers r = [(''Location'', host_url req @ ''/accounts/'' @ str_nat n)] \<and>
     body r = Json (serialize M \<lparr>id_of = Some n, attrs = f\<rparr>) \<and>
     fst (get_account M db' n) = Inr \<lparr>status = 200, body = body r, headers = []\<rparr>"
proof -
  from create_accounts_cases [of req M db] assms(2)
  obtain d f where r: "r = \<lparr>status = 201,
              body = Json (serialize M \<lparr>id_of = Some (next_id db), attrs = f\<rparr>),
              headers = [(''Location'', host_url req @ ''/accounts/'' @ str_nat (next_id db))]\<rparr>"
    and db': "db' = db\<lparr>rows := rows db @ [\<lparr>id_of = Some (next_id db), attrs = f\<rparr>],
            next_id := Suc (next_id db), calls := calls db @ [CreateCall]\<rparr>"
    by auto
  have "find_by_id db' (next_id db) = Some \<lparr>id_of = Some (next_id db), attrs = f\<rparr>"
    unfolding db' using assms(1) by (rule find_by_id_created)
  then have "fst (get_account M db' (next_id db)) =
      Inr \<lparr>status = 200, body = body r, headers = []\<rparr>"
    by (simp add: get_account_found r)
  with r show ?thesis
    by auto
qed

theorem create_then_read_witness:
  "wf_db example_db \<and>
   create_accounts example_models example_db (json_request ''Carol'') =
     (Inr \<lparr>status = 201, body = Json (Some 3, ''Carol''),
           headers = [(''Location'', ''http://localhost/accounts/3'')]\<rparr>,
      \<lparr>rows = [\<lparr>id_of = Some 1, attrs = ''Alice''\<rparr>, \<lparr>id_of = Some 2, attrs = ''Bob''\<rparr>,
               \<lparr>id_of = Some 3, attrs = ''Carol''\<rparr>],
       next_id = 4, calls = [CreateCall]\<rparr>) \<and>
   fst (get_account example_models
          \<lparr>rows = [\<lparr>id_of = Some 1, attrs = ''Alice''\<rparr>, \<lparr>id_of = Some 2, attrs = ''Bob''\<rparr>,
                   \<lparr>id_of = Some 3, attrs = ''Carol''\<rparr>],
           next_id = 4, calls = [CreateCall]\<rparr> 3) =
     Inr \<lparr>status = 200, body = Json (Some 3, ''Carol''), headers = []\<rparr>"
proof -
  have h1: "wf_db example_db"
    by (simp add: wf_db_def has_id_below_def example_db_def)
  have s: "str_nat 3 = ''3''"
    by (simp add: str_nat_small digit_def)
  have h2: "create_accounts example_models example_db (json_request ''Carol'') =
     (Inr \<lparr>status = 201, body = Json (Some 3, ''Carol''),
           headers = [(''Location'', ''http://localhost/accounts/3'')]\<rparr>,
      \<lparr>rows = [\<lparr>id_of = Some 1, attrs = ''Alice''\<rparr>, \<lparr>id_of = Some 2, attrs = ''Bob''\<rparr>,
               \<lparr>id_of = Some 3, attrs = ''Carol''\<rparr>],
       next_id = 4, calls = [CreateCall]\<rparr>)"
    by (simp add: create_accounts_created [where d = "''Carol''" and f = "''Carol''"]
        json_request_def example_models_def example_db_def s)
  show ?thesis
    using h1 h2 create_then_read [OF h1 h2]
    by (auto simp: example_models_def)
qed

text \<open>
  Claim C9. A Create that fails leaves the database exactly as it was, with no persistence
  operation invoked; the failure is a 415 or a 400, and it is the 415 whenever the
  Content-Type is not \<^verbatim>\<open>application/json\<close>.
\<close>

theorem create_failure_atomic:
  assumes "fst (create_accounts M db req) = Inl e"
  shows "snd (create_accounts M db req) = db \<and>
    (\<exists>msg. e = HTTPException 415 msg \<or> e = HTTPException 400 msg) \<and>
    (content_type req \<noteq> Some ''application/json'' \<longrightarrow>
       e = HTTPException 415 ''Content-Type must be application/json'')"
  using create_accounts_cases [of req M db] assms by auto

theorem create_failure_atomic_witness:
  "fst (create_accounts example_models example_db (json_request [])) =
     Inl (HTTPException 400 ''Invalid Account'') \<and>
   snd (create_accounts example_models example_db (json_request [])) = example_db"
proof -
  have h: "fst (create_accounts example_models example_db (json_request [])) =
     Inl (HTTPException 400 ''Invalid Account'')"
    by (simp add: create_accounts_invalid [where d = "[]"] json_request_def example_models_def)
  show ?thesis
    using h create_failure_atomic [OF h]
    by simp
qed

subsection \<open>Update\<close>

text \<open>
  Claim C3. An Update either succeeds with 200, and then the addressed record has its
  fields replaced by those decoded from the body, its id unchanged, every other record
  and the id counter as before; or it fails with 404, 415 or 400, and then the records and
  the id counter are as before and the lookup is the only persistence operation invoked.
\<close>

theorem update_atomic:
  "(\<exists>a d f. find_by_id db i = Some a \<and> json_body req = Some d \<and> decode M d = Some f \<and>
      fst (update_account M db i req) =
        Inr \<lparr>status = 200, body = Json (serialize M \<lparr>id_of = Some i, attrs = f\<rparr>),
             headers = []\<rparr> \<and>
      rows (snd (update_account M db i req)) =
        map (\<lambda>r. if id_of r = Some i then \<lparr>id_of = Some i, attrs = f\<rparr> else r) (rows db) \<and>
      next_id (snd (update_account M db i req)) = next_id db \<and>
      find_by_id (snd (update_account M db i req)) i = Some \<lparr>id_of = Some i, attrs = f\<rparr>) \<or>
   (\<exists>code msg. fst (update_account M db i req) = Inl (HTTPException code msg) \<and>
      (code = 404 \<or> code = 415 \<or> code = 400) \<and>
      persisted (snd (update_account M db i req)) = persisted db \<and>
      calls (snd (update_account M db i req)) = calls db @ [FindCall i])"
proof (cases "find_by_id db i")
  case None
  then show ?thesis
    by (simp add: update_account_missing persisted_def)
next
  case (Some a)
  note found = this
  show ?thesis
  proof (cases "content_type req = Some ''application/json''")
    case False
    with found show ?thesis
      by (simp add: update_account_bad_content_type persisted_def)
  next
    case True
    note ct = this
    show ?thesis
    proof (cases "json_body req")
      case None
      with found ct show ?thesis
        by (simp add: update_account_no_json persisted_def)
    next
      case (Some d)
      note js = this
      show ?thesis
      proof (cases "decode M d")
        case None
        with found ct js show ?thesis
          by (simp add: update_account_invalid persisted_def)
      next
        case (Some f)
        have "List.find (\<lambda>a. id_of a = Some i)
                (map (\<lambda>r. if id_of r = Some i then \<lparr>id_of = Some i, attrs = f\<rparr> else r)
                   (rows db)) = Some \<lparr>id_of = Some i, attrs = f\<rparr>"
          using found by (intro find_map_replace [where ?a0.0 = a]) (simp_all add: find_by_id_def)
        with found ct js Some show ?thesis
          by (simp add: update_account_updated find_by_id_def)
      qed
    qed
  qed
qed

subsection \<open>Delete\<close>

text \<open>
  Claim C4. Delete answers 204 with an empty body for every id, whether or not a record
  carries it. Afterwards no record carries the id, the other records are as before, a
  second Delete of the id answers 204 again and changes nothing, and List returns the
  serializations of the records that are left.
\<close>

theorem delete_idempotent:
  "fst (delete_account db i) = Inr \<lparr>status = 204, body = Text [], headers = []\<rparr> \<and>
   rows (snd (delete_account db i)) = filter (\<lambda>r. id_of r \<noteq> Some i) (rows db) \<and>
   find_by_id (snd (delete_account db i)) i = None \<and>
   fst (delete_account (snd (delete_account db i)) i) =
     Inr \<lparr>status = 204, body = Text [], headers = []\<rparr> \<and>
   persisted (snd (delete_account (snd (delete_account db i)) i)) =
     persisted (snd (delete_account db i)) \<and>
   fst (list_accounts M (snd (delete_account db i))) =
     Inr \<lparr>status = 200,
          body = JsonList (map (serialize M) (filter (\<lambda>r. id_of r \<noteq> Some i) (rows db))),
          headers = []\<rparr>"
proof -
  have st: "fst (delete_account db' i) = Inr \<lparr>status = 204, body = Text [], headers = []\<rparr>"
    for db' :: "'a database"
    by (cases "find_by_id db' i") (simp_all add: delete_account_missing delete_account_found)
  have gone: "find_by_id (snd (delete_account db i)) i = None"
    by (simp add: find_by_id_def delete_account_rows find_filter_removed)
  have again: "persisted (snd (delete_account (snd (delete_account db i)) i)) =
     persisted (snd (delete_account db i))"
    using gone by (simp add: delete_account_missing persisted_def)
  show ?thesis
    using st gone again by (simp add: delete_account_rows list_accounts_eq)
qed

end
